theory Spec2Isabelle
  imports Complex_Main "HOL-Library.Char_ord" "HOL-Library.List_Lexorder"
begin

section \<open>Numbers, columns and data frames\<close>

text \<open>
  The analytics code works on a pandas DataFrame whose numeric columns hold float64 (or
  int64) values. A cell of such a column is modelled by \<open>fl\<close>: a finite value, one of the
  two infinities, or NaN (pandas' missing value). The operations \<open>fl_add\<close>, \<open>fl_sub\<close>,
  \<open>fl_mul\<close> and \<open>fl_div\<close> are exact on finite values, and the rounding of float64 is a
  separate step, \<open>f64\<close>, defined below (signed zeros are not modelled); the special values
  follow IEEE 754, which is what numpy does under pandas: NaN is absorbing, \<open>x / 0\<close> is an
  infinity or NaN and never raises.
\<close>

datatype fl = Fin real | PInf | NInf | NaN

fun fl_neg :: "fl \<Rightarrow> fl" where
  "fl_neg (Fin a) = Fin (- a)"
| "fl_neg PInf = NInf"
| "fl_neg NInf = PInf"
| "fl_neg NaN = NaN"

fun fl_add :: "fl \<Rightarrow> fl \<Rightarrow> fl" where
  "fl_add NaN y = NaN"
| "fl_add x NaN = NaN"
| "fl_add (Fin a) (Fin b) = Fin (a + b)"
| "fl_add PInf NInf = NaN"
| "fl_add NInf PInf = NaN"
| "fl_add PInf y = PInf"
| "fl_add NInf y = NInf"
| "fl_add (Fin a) y = y"

definition fl_sub :: "fl \<Rightarrow> fl \<Rightarrow> fl" where
  "fl_sub x y = fl_add x (fl_neg y)"

text \<open>The sign of a value that is not NaN: -1, 0 or 1.\<close>

fun fl_sgn :: "fl \<Rightarrow> int" where
  "fl_sgn (Fin a) = (if a < 0 then - 1 else if a = 0 then 0 else 1)"
| "fl_sgn PInf = 1"
| "fl_sgn NInf = - 1"
| "fl_sgn NaN = 0"

definition of_sgn :: "int \<Rightarrow> fl" where
  "of_sgn s = (if s = 0 then NaN else if 0 < s then PInf else NInf)"

fun fl_mul :: "fl \<Rightarrow> fl \<Rightarrow> fl" where
  "fl_mul NaN y = NaN"
| "fl_mul x NaN = NaN"
| "fl_mul (Fin a) (Fin b) = Fin (a * b)"
| "fl_mul x y = of_sgn (fl_sgn x * fl_sgn y)"

fun fl_div :: "fl \<Rightarrow> fl \<Rightarrow> fl" where
  "fl_div NaN y = NaN"
| "fl_div x NaN = NaN"
| "fl_div (Fin a) (Fin b) = (if b = 0 then of_sgn (fl_sgn (Fin a)) else Fin (a / b))"
| "fl_div (Fin a) y = Fin 0"
| "fl_div x (Fin b) = of_sgn (fl_sgn x * (if b < 0 then - 1 else 1))"
| "fl_div x y = NaN"

text \<open>Comparison as in IEEE 754: every comparison with NaN is false.\<close>

fun fl_less :: "fl \<Rightarrow> fl \<Rightarrow> bool" where
  "fl_less NaN y = False"
| "fl_less x NaN = False"
| "fl_less (Fin a) (Fin b) = (a < b)"
| "fl_less x NInf = False"
| "fl_less PInf y = False"
| "fl_less x y = True"


definition fl_max :: "fl \<Rightarrow> fl \<Rightarrow> fl" where
  "fl_max x y = (if fl_less x y then y else x)"

text \<open>
  Where a result depends on the last bit, float64 arithmetic is the exact operation
  followed by IEEE 754 rounding to the nearest value with a 53-bit significand, ties to
  the even one: \<open>rne\<close> rounds to an integer that way, \<open>floor_log2 x\<close> is the binary
  exponent of a positive \<open>x\<close> (the \<open>e\<close> with \<open>2^e \<le> x < 2^(e+1)\<close>), \<open>ulp_exp x\<close> is the
  exponent of the spacing of the float64 values around \<open>x\<close> (subnormal below \<open>2^-1022\<close>),
  and a result of magnitude \<open>2^1024\<close> or more overflows to an infinity. \<open>f64\<close> rounds the
  result of an exact operation; int64 arithmetic wraps around modulo \<open>2^64\<close>.
\<close>

definition rne :: "real \<Rightarrow> int" where
  "rne x =
     (let f = \<lfloor>x\<rfloor>; d = x - of_int f in
      if d < 1 / 2 then f else if 1 / 2 < d then f + 1 else if even f then f else f + 1)"

function floor_log2 :: "real \<Rightarrow> int" where
  "floor_log2 x =
     (if x \<le> 0 then 0
      else if x < 1 then floor_log2 (2 * x) - 1
      else if 2 \<le> x then floor_log2 (x / 2) + 1
      else 0)"
  by pat_completeness auto
termination
proof (relation "measure (\<lambda>x. nat \<lceil>x\<rceil> + 2 * nat \<lceil>1 / x\<rceil>)")
  show "wf (measure (\<lambda>x::real. nat \<lceil>x\<rceil> + 2 * nat \<lceil>1 / x\<rceil>))" by simp
next
  fix x :: real
  assume a: "\<not> x \<le> 0" "x < 1"
  have c1: "\<lceil>x\<rceil> = 1" using a by (simp add: ceiling_eq_iff)
  show "(2 * x, x) \<in> measure (\<lambda>x. nat \<lceil>x\<rceil> + 2 * nat \<lceil>1 / x\<rceil>)"
  proof (cases "x \<le> 1 / 2")
    case True
    then have "\<lceil>2 * x\<rceil> = 1" using a by (simp add: ceiling_eq_iff)
    moreover have "1 / (2 * x) + 1 \<le> 1 / x"
    proof -
      have "1 / x = 1 / (2 * x) + 1 / (2 * x)" using a by (simp add: field_simps)
      moreover have "1 \<le> 1 / (2 * x)" using a True by (simp add: field_simps)
      ultimately show ?thesis by linarith
    qed
    then have "\<lceil>1 / (2 * x)\<rceil> + 1 \<le> \<lceil>1 / x\<rceil>"
      by (metis ceiling_add_one ceiling_mono)
    moreover have "0 < \<lceil>1 / (2 * x)\<rceil>" using a by (simp add: ceiling_less_iff)
    ultimately show ?thesis using c1 by simp
  next
    case False
    then have "\<lceil>2 * x\<rceil> = 2" using a by (simp add: ceiling_eq_iff)
    moreover have "\<lceil>1 / x\<rceil> = 2" using a False by (simp add: ceiling_eq_iff field_simps)
    moreover have "\<lceil>1 / (2 * x)\<rceil> = 1" using a False by (simp add: ceiling_eq_iff field_simps)
    ultimately show ?thesis using c1 by simp
  qed
next
  fix x :: real
  assume a: "\<not> x \<le> 0" "\<not> x < 1" "2 \<le> x"
  have "x / 2 + 1 \<le> x" using a by simp
  then have "\<lceil>x / 2\<rceil> + 1 \<le> \<lceil>x\<rceil>" by (metis ceiling_add_one ceiling_mono)
  moreover have "0 < \<lceil>x / 2\<rceil>" using a by (simp add: ceiling_less_iff)
  moreover have "\<lceil>1 / x\<rceil> = 1" using a by (simp add: ceiling_eq_iff)
  moreover have "\<lceil>1 / (x / 2)\<rceil> = 1" using a by (simp add: ceiling_eq_iff)
  ultimately show "(x / 2, x) \<in> measure (\<lambda>x. nat \<lceil>x\<rceil> + 2 * nat \<lceil>1 / x\<rceil>)" by simp
qed

declare floor_log2.simps [simp del]

definition pow2 :: "int \<Rightarrow> real" where
  "pow2 e = (if 0 \<le> e then 2 ^ nat e else 1 / 2 ^ nat (- e))"

definition ulp_exp :: "real \<Rightarrow> int" where
  "ulp_exp x = max (floor_log2 \<bar>x\<bar>) (- 1022) - 52"

definition round64 :: "real \<Rightarrow> fl" where
  "round64 x =
     (if x = 0 then Fin 0
      else let u = pow2 (ulp_exp x); y = of_int (rne (x / u)) * u
           in if 2 ^ 1024 \<le> y then PInf else if y \<le> - (2 ^ 1024) then NInf else Fin y)"

fun f64 :: "fl \<Rightarrow> fl" where
  "f64 (Fin x) = round64 x"
| "f64 v = v"

definition wrap64 :: "int \<Rightarrow> int" where
  "wrap64 i = (i + 2 ^ 63) mod 2 ^ 64 - 2 ^ 63"

text \<open>
  A column is of dtype float64 (\<open>NumCol\<close>), int64 (\<open>IntCol\<close>, the integers between
  \<open>-2^63\<close> and \<open>2^63 - 1\<close>), object (strings, with \<open>None\<close> for a missing cell) or
  categorical (the result of \<open>pd.cut\<close> / \<open>pd.qcut\<close>). A DataFrame is its columns in
  order, looked up by name; \<open>df[name]\<close> raises KeyError for a name it does not have, and
  \<open>df[[n1, n2, ...]]\<close> raises KeyError with all the names it does not have.
\<close>

datatype column =
  NumCol "fl list" | IntCol "int list" | ObjCol "string option list" | CatCol "string option list"

type_synonym dataframe = "(string \<times> column) list"

datatype error = KeyError "string list" | TypeError | ValueError string | NotFittedError

definition getitem :: "dataframe \<Rightarrow> string \<Rightarrow> error + column" where
  "getitem df name = (case map_of df name of None \<Rightarrow> Inl (KeyError [name]) | Some c \<Rightarrow> Inr c)"

definition getitems :: "dataframe \<Rightarrow> string list \<Rightarrow> error + column list" where
  "getitems df names =
     (case filter (\<lambda>n. map_of df n = None) names of
        [] \<Rightarrow> Inr (map (\<lambda>n. the (map_of df n)) names)
      | m # ms \<Rightarrow> Inl (KeyError (m # ms)))"

text \<open>
  \<open>df[name] = col\<close>: an existing column is replaced where it stands, a new one is added
  last.
\<close>

fun setitem :: "dataframe \<Rightarrow> string \<Rightarrow> column \<Rightarrow> dataframe" where
  "setitem [] name col = [(name, col)]"
| "setitem ((k, c) # df) name col =
     (if k = name then (k, col) # df else (k, c) # setitem df name col)"

text \<open>
  The operands of \<open>/\<close>, \<open>-\<close> and of \<open>*\<close> by a float: numbers, an int64 column being
  converted to float64. On an object column pandas applies the Python operator cell by
  cell, and a \<open>str\<close> operand of these raises TypeError; the model reports every
  non-numeric column that way.
\<close>

fun numeric :: "column \<Rightarrow> error + fl list" where
  "numeric (NumCol xs) = Inr xs"
| "numeric (IntCol xs) = Inr (map (\<lambda>i. round64 (of_int i)) xs)"
| "numeric (ObjCol xs) = Inl TypeError"
| "numeric (CatCol xs) = Inl TypeError"

definition getitem_num :: "dataframe \<Rightarrow> string \<Rightarrow> error + fl list" where
  "getitem_num df name = (case getitem df name of Inl e \<Rightarrow> Inl e | Inr c \<Rightarrow> numeric c)"

text \<open>\<open>Series.max()\<close> skips missing values; it is NaN when nothing is left.\<close>

definition series_max :: "fl list \<Rightarrow> fl" where
  "series_max xs =
     (case filter (\<lambda>x. x \<noteq> NaN) xs of [] \<Rightarrow> NaN | y # ys \<Rightarrow> foldl fl_max y ys)"

text \<open>
  \<open>Series.map(dict)\<close>: a cell that is a key of the dict becomes its value, every other
  cell (an unknown string, a missing cell, a number) becomes NaN. It never raises.
\<close>

definition map_cell :: "(string \<times> real) list \<Rightarrow> string option \<Rightarrow> fl" where
  "map_cell d c =
     (case c of None \<Rightarrow> NaN
      | Some s \<Rightarrow> (case map_of d s of None \<Rightarrow> NaN | Some v \<Rightarrow> Fin v))"

fun series_map :: "(string \<times> real) list \<Rightarrow> column \<Rightarrow> fl list" where
  "series_map d (ObjCol xs) = map (map_cell d) xs"
| "series_map d (CatCol xs) = map (map_cell d) xs"
| "series_map d (NumCol xs) = map (\<lambda>x. NaN) xs"
| "series_map d (IntCol xs) = map (\<lambda>x. NaN) xs"

text \<open>Series against scalar, and Series against Series of the same frame (same index).\<close>

definition series_add :: "fl list \<Rightarrow> fl list \<Rightarrow> fl list" where
  "series_add xs ys = map2 fl_add xs ys"

definition series_div :: "fl list \<Rightarrow> fl list \<Rightarrow> fl list" where
  "series_div xs ys = map2 (\<lambda>x y. f64 (fl_div x y)) xs ys"

definition scale :: "fl list \<Rightarrow> real \<Rightarrow> fl list" where
  "scale xs w = map (\<lambda>x. fl_mul x (Fin w)) xs"

section \<open>Risk scorer (src/analytics/risk\_scorer.py)\<close>

definition contract_risk_map :: "(string \<times> real) list" where
  "contract_risk_map = [(''Month-to-Month'', 100), (''One Year'', 50), (''Two Year'', 25)]"

definition payment_risk_map :: "(string \<times> real) list" where
  "payment_risk_map =
     [(''Electronic check'', 80), (''Mailed check'', 60),
      (''Bank transfer (automatic)'', 40), (''Credit card (automatic)'', 40)]"

text \<open>
  \<open>calculate_risk_score\<close>: the four factors are built in the order of the dict literal
  (so a missing column is reported in that order), then
  \<open>sum(risk_factors[f] * weights[f] for f in risk_factors)\<close> adds them to the integer 0
  from left to right.
\<close>

definition calculate_risk_score :: "dataframe \<Rightarrow> error + fl list" where
  "calculate_risk_score df =
     (case getitem_num df ''Tenure'' of Inl e \<Rightarrow> Inl e | Inr tenure \<Rightarrow>
      let tenure_risk =
            map (\<lambda>x. fl_sub (Fin 100) (fl_mul (fl_div x (series_max tenure)) (Fin 100))) tenure
      in
      (case getitem_num df ''SatisfactionScore'' of Inl e \<Rightarrow> Inl e | Inr satisfaction \<Rightarrow>
       let satisfaction_risk =
             map (\<lambda>x. fl_sub (Fin 100) (fl_mul (fl_div x (Fin 5)) (Fin 100))) satisfaction
       in
       (case getitem df ''ContractType'' of Inl e \<Rightarrow> Inl e | Inr contract \<Rightarrow>
        let contract_risk = series_map contract_risk_map contract in
        (case getitem df ''PaymentMethod'' of Inl e \<Rightarrow> Inl e | Inr payment \<Rightarrow>
         let payment_risk = series_map payment_risk_map payment in
         Inr (series_add
               (series_add
                 (series_add
                   (map (fl_add (Fin 0)) (scale tenure_risk 0.3))
                   (scale satisfaction_risk 0.3))
                 (scale contract_risk 0.2))
               (scale payment_risk 0.2))))))"

text \<open>
  \<open>get_risk_categories\<close> buckets the scores with
  \<open>pd.cut(scores, bins=[0, 30, 60, 100], labels=[...])\<close>. pandas finds the bin of a value
  with \<open>bins.searchsorted(x, side='left')\<close>, the number of edges strictly below \<open>x\<close>; a
  value with no edge below it, with every edge below it, or missing, gets no category.
  With \<open>include_lowest\<close> (which \<open>pd.cut\<close> leaves off and \<open>pd.qcut\<close> turns on) a value
  equal to the first edge goes to the first bin.
\<close>

definition searchsorted_left :: "fl list \<Rightarrow> fl \<Rightarrow> nat" where
  "searchsorted_left bins x = length (takeWhile (\<lambda>b. fl_less b x) bins)"

definition bin_id :: "fl list \<Rightarrow> bool \<Rightarrow> fl \<Rightarrow> nat" where
  "bin_id bins include_lowest x =
     (if include_lowest \<and> bins \<noteq> [] \<and> x = hd bins then 1 else searchsorted_left bins x)"

definition bins_to_cuts ::
  "fl list \<Rightarrow> string list \<Rightarrow> bool \<Rightarrow> fl list \<Rightarrow> error + string option list" where
  "bins_to_cuts bins labels include_lowest xs =
     (if \<not> distinct bins \<and> length bins \<noteq> 2 then Inl (ValueError ''Bin edges must be unique'')
      else if \<not> distinct labels then Inl (ValueError ''labels must be unique if ordered=True'')
      else if length labels \<noteq> length bins - 1
        then Inl (ValueError ''Bin labels must be one fewer than the number of bin edges'')
      else Inr (map (\<lambda>x. let i = bin_id bins include_lowest x in
                           if x = NaN \<or> i = length bins \<or> i = 0 then None
                           else Some (labels ! (i - 1))) xs))"

fun decreasing_step :: "fl list \<Rightarrow> bool" where
  "decreasing_step (a # b # bs) = (fl_less b a \<or> decreasing_step (b # bs))"
| "decreasing_step bs = False"

definition pd_cut :: "fl list \<Rightarrow> string list \<Rightarrow> fl list \<Rightarrow> error + string option list" where
  "pd_cut bins labels xs =
     (if decreasing_step bins then Inl (ValueError ''bins must increase monotonically.'')
      else bins_to_cuts bins labels False xs)"

definition risk_bins :: "fl list" where
  "risk_bins = [Fin 0, Fin 30, Fin 60, Fin 100]"

definition risk_labels :: "string list" where
  "risk_labels = [''Low Risk'', ''Medium Risk'', ''High Risk'']"

text \<open>
  The category of a score depends on its last bit at the edges 30 and 60, so
  \<open>get_risk_categories\<close> cuts the scores as float64 arithmetic gives them:
  \<open>calculate_risk_score_with r\<close> is \<open>calculate_risk_score\<close> with \<open>r\<close> applied to the
  float literals and to the result of every arithmetic operation. With \<open>r = f64\<close> it is
  the computation of the source, rounded operation by operation; with the identity it
  is \<open>calculate_risk_score\<close>.
\<close>

definition calculate_risk_score_with :: "(fl \<Rightarrow> fl) \<Rightarrow> dataframe \<Rightarrow> error + fl list" where
  "calculate_risk_score_with r df =
     (case getitem_num df ''Tenure'' of Inl e \<Rightarrow> Inl e | Inr tenure \<Rightarrow>
      let tenure_risk =
            map (\<lambda>x. r (fl_sub (Fin 100) (r (fl_mul (r (fl_div x (series_max tenure))) (Fin 100)))))
              tenure
      in
      (case getitem_num df ''SatisfactionScore'' of Inl e \<Rightarrow> Inl e | Inr satisfaction \<Rightarrow>
       let satisfaction_risk =
             map (\<lambda>x. r (fl_sub (Fin 100) (r (fl_mul (r (fl_div x (Fin 5))) (Fin 100)))))
               satisfaction
       in
       (case getitem df ''ContractType'' of Inl e \<Rightarrow> Inl e | Inr contract \<Rightarrow>
        let contract_risk = series_map contract_risk_map contract in
        (case getitem df ''PaymentMethod'' of Inl e \<Rightarrow> Inl e | Inr payment \<Rightarrow>
         let payment_risk = series_map payment_risk_map payment;
             times = (\<lambda>w x. r (fl_mul x (r (Fin w))));
             plus = (\<lambda>x y. r (fl_add x y))
         in
         Inr (map2 plus
               (map2 plus
                 (map2 plus
                   (map (plus (Fin 0)) (map (times 0.3) tenure_risk))
                   (map (times 0.3) satisfaction_risk))
                 (map (times 0.2) contract_risk))
               (map (times 0.2) payment_risk))))))"

definition get_risk_categories :: "dataframe \<Rightarrow> error + string option list" where
  "get_risk_categories df =
     (case calculate_risk_score_with f64 df of Inl e \<Rightarrow> Inl e
      | Inr risk_scores \<Rightarrow> pd_cut risk_bins risk_labels risk_scores)"

section \<open>Engagement analyzer (src/analytics/engagement\_analyzer.py)\<close>

text \<open>
  \<open>x != 'No'\<close> on a cell: true for every cell but the string \<open>No\<close> (a number or a missing
  cell differs from it). \<open>df[service_columns].apply(lambda x: sum(x != 'No'), axis=1)\<close>
  counts, row by row, the selected columns whose cell differs.
\<close>

fun cells_ne :: "string \<Rightarrow> column \<Rightarrow> bool list" where
  "cells_ne s (NumCol xs) = map (\<lambda>x. True) xs"
| "cells_ne s (IntCol xs) = map (\<lambda>x. True) xs"
| "cells_ne s (ObjCol xs) = map (\<lambda>c. c \<noteq> Some s) xs"
| "cells_ne s (CatCol xs) = map (\<lambda>c. c \<noteq> Some s) xs"

fun col_len :: "column \<Rightarrow> nat" where
  "col_len (NumCol xs) = length xs"
| "col_len (IntCol xs) = length xs"
| "col_len (ObjCol xs) = length xs"
| "col_len (CatCol xs) = length xs"

definition count_rows_ne :: "string \<Rightarrow> column list \<Rightarrow> nat list" where
  "count_rows_ne s cols =
     (case cols of [] \<Rightarrow> []
      | c # cs \<Rightarrow> map (\<lambda>i. length (filter (\<lambda>col. cells_ne s col ! i) cols)) [0..<col_len c])"

definition service_columns :: "string list" where
  "service_columns = [''PhoneService'', ''InternetService'', ''StreamingTV'', ''StreamingMovies'']"



section \<open>CLV analyzer (src/analytics/clv\_analyzer.py)\<close>

text \<open>
  The analyzers keep a reference to the frame and assign columns to it, so an operation
  returns the frame as it leaves it together with its result or the exception it raises.
\<close>

text \<open>
  The product of two columns of one frame, cell by cell, as numpy computes it for their
  dtypes. Two float64 columns, or a float64 and an int64 column (converted to float64
  first), give the rounded float64 product; two int64 columns give the int64 product,
  which wraps around. With an object column pandas applies Python's \<open>*\<close> to the cells
  that are not missing: \<open>str * int\<close> repeats the string (a count below 1 gives the empty
  string), \<open>str\<close> times a float or a \<open>str\<close> raises TypeError, and a missing operand
  gives a missing result. A categorical column has no arithmetic.
\<close>

definition str_times :: "string option \<Rightarrow> int \<Rightarrow> string option" where
  "str_times c n = (case c of None \<Rightarrow> None | Some s \<Rightarrow> Some (concat (replicate (nat n) s)))"

fun col_mul :: "column \<Rightarrow> column \<Rightarrow> error + column" where
  "col_mul (NumCol xs) (NumCol ys) = Inr (NumCol (map2 (\<lambda>x y. f64 (fl_mul x y)) xs ys))"
| "col_mul (NumCol xs) (IntCol ys) =
     Inr (NumCol (map2 (\<lambda>x y. f64 (fl_mul x (round64 (of_int y)))) xs ys))"
| "col_mul (IntCol xs) (NumCol ys) =
     Inr (NumCol (map2 (\<lambda>x y. f64 (fl_mul (round64 (of_int x)) y)) xs ys))"
| "col_mul (IntCol xs) (IntCol ys) = Inr (IntCol (map2 (\<lambda>x y. wrap64 (x * y)) xs ys))"
| "col_mul (ObjCol xs) (IntCol ys) = Inr (ObjCol (map2 str_times xs ys))"
| "col_mul (IntCol xs) (ObjCol ys) = Inr (ObjCol (map2 (\<lambda>x y. str_times y x) xs ys))"
| "col_mul (ObjCol xs) (NumCol ys) =
     (if \<exists>(x, y) \<in> set (zip xs ys). x \<noteq> None \<and> y \<noteq> NaN then Inl TypeError
      else Inr (ObjCol (map (\<lambda>p. None) (zip xs ys))))"
| "col_mul (NumCol xs) (ObjCol ys) =
     (if \<exists>(x, y) \<in> set (zip xs ys). x \<noteq> NaN \<and> y \<noteq> None then Inl TypeError
      else Inr (ObjCol (map (\<lambda>p. None) (zip xs ys))))"
| "col_mul (ObjCol xs) (ObjCol ys) =
     (if \<exists>(x, y) \<in> set (zip xs ys). x \<noteq> None \<and> y \<noteq> None then Inl TypeError
      else Inr (ObjCol (map (\<lambda>p. None) (zip xs ys))))"
| "col_mul x y = Inl TypeError"

definition calculate_basic_clv :: "dataframe \<Rightarrow> dataframe \<times> (error + column)" where
  "calculate_basic_clv df =
     (case getitem df ''MonthlyCharges'' of Inl e \<Rightarrow> (df, Inl e) | Inr monthly \<Rightarrow>
      (case getitem df ''Tenure'' of Inl e \<Rightarrow> (df, Inl e) | Inr tenure \<Rightarrow>
       (case col_mul monthly tenure of Inl e \<Rightarrow> (df, Inl e) | Inr clv \<Rightarrow>
        let df' = setitem df ''CLV'' clv in (df', getitem df' ''CLV''))))"

text \<open>
  \<open>pd.qcut(x, q=4, labels=...)\<close> takes the quantiles 0, 1/4, 1/2, 3/4, 1 of the values that
  are not missing as bin edges and cuts with \<open>include_lowest\<close>. The quantile is numpy's
  linear one: on the sorted values, position \<open>(n - 1) * q\<close>, interpolated between its two
  neighbours.
\<close>

fun fl_insort :: "fl \<Rightarrow> fl list \<Rightarrow> fl list" where
  "fl_insort x [] = [x]"
| "fl_insort x (y # ys) = (if fl_less y x then y # fl_insort x ys else x # y # ys)"

definition fl_sort :: "fl list \<Rightarrow> fl list" where
  "fl_sort xs = foldr fl_insort xs []"

definition lerp :: "fl \<Rightarrow> fl \<Rightarrow> real \<Rightarrow> fl" where
  "lerp a b g =
     (let d = fl_sub b a in
      if 1 / 2 \<le> g then fl_sub b (fl_mul d (Fin (1 - g))) else fl_add a (fl_mul d (Fin g)))"

definition series_quantile :: "fl list \<Rightarrow> real \<Rightarrow> fl" where
  "series_quantile xs q =
     (let vs = fl_sort (filter (\<lambda>x. x \<noteq> NaN) xs); n = length vs in
      if n = 0 then NaN
      else let h = real (n - 1) * q; lo = nat \<lfloor>h\<rfloor>; hi = min (lo + 1) (n - 1)
           in lerp (vs ! lo) (vs ! hi) (h - real lo))"

definition quartiles :: "real list" where
  "quartiles = [0, 1 / 4, 1 / 2, 3 / 4, 1]"

definition pd_qcut :: "fl list \<Rightarrow> string list \<Rightarrow> error + string option list" where
  "pd_qcut xs labels = bins_to_cuts (map (series_quantile xs) quartiles) labels True xs"

text \<open>
  \<open>groupby(key).agg({...})\<close> on a categorical key: one row per category, in the order of
  the categories (pandas before 3.0 keeps a category no row falls in), rows whose key is
  missing are left out. \<open>mean\<close> and \<open>sum\<close> skip missing values; the mean of nothing is NaN,
  the sum of nothing is 0.
\<close>

definition group_of :: "string option list \<Rightarrow> string \<Rightarrow> fl list \<Rightarrow> fl list" where
  "group_of keys l xs = map snd (filter (\<lambda>(k, x). k = Some l) (zip keys xs))"

definition series_sum :: "fl list \<Rightarrow> fl" where
  "series_sum xs = foldl fl_add (Fin 0) (filter (\<lambda>x. x \<noteq> NaN) xs)"

definition series_mean :: "fl list \<Rightarrow> fl" where
  "series_mean xs =
     (let vs = filter (\<lambda>x. x \<noteq> NaN) xs in
      if vs = [] then NaN else fl_div (foldl fl_add (Fin 0) vs) (Fin (real (length vs))))"

record value_row =
  ValueSegment :: string
  MonthlyCharges_mean :: fl
  Tenure_mean :: fl
  Churn_mean :: fl
  TotalCharges_sum :: fl

definition value_labels :: "string list" where
  "value_labels = [''Bronze'', ''Silver'', ''Gold'', ''Platinum'']"

definition value_agg :: "dataframe \<Rightarrow> string option list \<Rightarrow> error + value_row list" where
  "value_agg df keys =
     (case getitems df [''MonthlyCharges'', ''Tenure'', ''Churn'', ''TotalCharges''] of
        Inl e \<Rightarrow> Inl e
      | Inr cols \<Rightarrow>
         (case (numeric (cols ! 0), numeric (cols ! 1), numeric (cols ! 2), numeric (cols ! 3)) of
            (Inr monthly, Inr tenure, Inr churn, Inr total_charges) \<Rightarrow>
              Inr (map (\<lambda>l. \<lparr>ValueSegment = l,
                              MonthlyCharges_mean = series_mean (group_of keys l monthly),
                              Tenure_mean = series_mean (group_of keys l tenure),
                              Churn_mean = series_mean (group_of keys l churn),
                              TotalCharges_sum = series_sum (group_of keys l total_charges)\<rparr>)
                     value_labels)
          | _ \<Rightarrow> Inl TypeError))"

definition segment_value_analysis :: "dataframe \<Rightarrow> dataframe \<times> (error + value_row list)" where
  "segment_value_analysis df =
     (case getitem_num df ''TotalCharges'' of Inl e \<Rightarrow> (df, Inl e) | Inr total_charges \<Rightarrow>
      (case pd_qcut total_charges value_labels of Inl e \<Rightarrow> (df, Inl e) | Inr segs \<Rightarrow>
       let df' = setitem df ''ValueSegment'' (CatCol segs) in (df', value_agg df' segs)))"

section \<open>Data processor (src/data\_processor.py)\<close>

text \<open>\<open>Series.clip(1)\<close>: a value below 1 becomes 1, a missing value stays missing.\<close>

definition clip_lower :: "real \<Rightarrow> fl \<Rightarrow> fl" where
  "clip_lower l x = (if fl_less x (Fin l) then Fin l else x)"

definition calculate_customer_metrics :: "dataframe \<Rightarrow> dataframe \<times> (error + dataframe)" where
  "calculate_customer_metrics df =
     (case getitem df ''MonthlyCharges'' of Inl e \<Rightarrow> (df, Inl e) | Inr monthly \<Rightarrow>
      (case getitem df ''Tenure'' of Inl e \<Rightarrow> (df, Inl e) | Inr tenure \<Rightarrow>
       (case col_mul monthly tenure of Inl e \<Rightarrow> (df, Inl e) | Inr clv \<Rightarrow>
        let df1 = setitem df ''CLV'' clv in
        (case getitem_num df1 ''TotalCharges'' of Inl e \<Rightarrow> (df1, Inl e) | Inr total_charges \<Rightarrow>
         (case getitem_num df1 ''Tenure'' of Inl e \<Rightarrow> (df1, Inl e) | Inr tenure1 \<Rightarrow>
          let df2 = setitem df1 ''ARPU'' (NumCol (series_div total_charges (map (clip_lower 1) tenure1))) in
          (case getitems df2 service_columns of Inl e \<Rightarrow> (df2, Inl e) | Inr services \<Rightarrow>
           let df3 = setitem df2 ''ServiceUsageScore''
                       (IntCol (map int (count_rows_ne ''No'' services)))
           in (df3, Inr df3)))))))"

text \<open>
  A DataProcessor holds the frame, a StandardScaler and a dict of LabelEncoders. The scaler
  is a library object: \<open>None\<close> is the scaler as constructed, \<open>Some st\<close> one that has been
  fitted, and its \<open>fit_transform\<close> is a parameter of the model. A fitted LabelEncoder is
  its \<open>classes_\<close>: the distinct strings in sorted order, a missing value last.
\<close>

record 's data_processor =
  proc_df :: dataframe
  scaler :: "'s option"
  label_encoders :: "string \<rightharpoonup> string option list"

definition DataProcessor :: "dataframe \<Rightarrow> 's data_processor" where
  "DataProcessor df = \<lparr>proc_df = df, scaler = None, label_encoders = Map.empty\<rparr>"

definition label_classes :: "string option list \<Rightarrow> string option list" where
  "label_classes xs =
     map Some (sort (remdups (List.map_filter id xs))) @ (if None \<in> set xs then [None] else [])"

definition label_transform :: "string option list \<Rightarrow> string option list \<Rightarrow> int list" where
  "label_transform classes xs =
     map (\<lambda>x. int (length (takeWhile (\<lambda>c. c \<noteq> x) classes))) xs"

definition drop_ignore :: "string list \<Rightarrow> dataframe \<Rightarrow> dataframe" where
  "drop_ignore names df = filter (\<lambda>(n, c). n \<notin> set names) df"

fun is_object :: "column \<Rightarrow> bool" where
  "is_object (ObjCol xs) = True"
| "is_object c = False"

fun is_number :: "column \<Rightarrow> bool" where
  "is_number (NumCol xs) = True"
| "is_number (IntCol xs) = True"
| "is_number c = False"

definition select_dtypes :: "(column \<Rightarrow> bool) \<Rightarrow> dataframe \<Rightarrow> string list" where
  "select_dtypes which df = map fst (filter (\<lambda>(n, c). which c) df)"

text \<open>
  One round of the loop over \<open>categorical_cols\<close>: a new encoder is stored under the
  column's name and the column is replaced by its codes. The names come from the frame
  itself, so the column is there and is an object column.
\<close>

fun encode_column ::
  "dataframe \<times> (string \<rightharpoonup> string option list) \<Rightarrow> string \<Rightarrow>
   dataframe \<times> (string \<rightharpoonup> string option list)" where
  "encode_column (model_df, encoders) col =
     (case map_of model_df col of
        Some (ObjCol xs) \<Rightarrow>
          (setitem model_df col (IntCol (label_transform (label_classes xs) xs)),
           encoders(col \<mapsto> label_classes xs))
      | _ \<Rightarrow> (model_df, encoders))"

definition num_cells :: "dataframe \<Rightarrow> string \<Rightarrow> fl list" where
  "num_cells df name =
     (case map_of df name of
        Some (NumCol xs) \<Rightarrow> xs
      | Some (IntCol xs) \<Rightarrow> map (\<lambda>i. round64 (of_int i)) xs
      | _ \<Rightarrow> [])"

definition assign_all :: "dataframe \<Rightarrow> string list \<Rightarrow> fl list list \<Rightarrow> dataframe" where
  "assign_all df names cols = foldl (\<lambda>d (n, c). setitem d n (NumCol c)) df (zip names cols)"

text \<open>
  \<open>prepare_model_data\<close>. The \<open>except\<close> clause logs and raises the same exception again, so
  the result is the exception; the processor is returned as the call leaves it.
\<close>

definition prepare_model_data ::
  "('s option \<Rightarrow> fl list list \<Rightarrow> 's option \<times> (error + fl list list)) \<Rightarrow>
   's data_processor \<Rightarrow> string \<Rightarrow> 's data_processor \<times> (error + dataframe \<times> column)" where
  "prepare_model_data fit_transform self target_col =
     (let model_df = drop_ignore [''CustomerID'', ''LastUpdate''] (proc_df self);
          categorical_cols = select_dtypes is_object model_df;
          (model_df, encoders) = foldl encode_column (model_df, label_encoders self) categorical_cols;
          self = self\<lparr>label_encoders := encoders\<rparr>
      in if target_col \<notin> set (map fst model_df) then (self, Inl (KeyError [target_col]))
         else
           let X = drop_ignore [target_col] model_df;
               y = the (map_of model_df target_col);
               numerical_cols = select_dtypes is_number X;
               (fitted, scaled) = fit_transform (scaler self) (map (num_cells X) numerical_cols);
               self = self\<lparr>scaler := fitted\<rparr>
           in (case scaled of
                 Inl e \<Rightarrow> (self, Inl e)
               | Inr cols \<Rightarrow> (self, Inr (assign_all X numerical_cols cols, y))))"

section \<open>Churn predictor (src/model.py)\<close>

text \<open>
  The predictor wraps a scikit-learn RandomForestClassifier. \<open>model\<close> is \<open>None\<close> for the
  forest as constructed and \<open>Some m\<close> once \<open>fit\<close> has run; the library's fitting,
  evaluation and \<open>predict_proba\<close> on a fitted forest are parameters. On a forest that
  is not fitted \<open>predict_proba\<close> raises scikit-learn's NotFittedError (a subclass of
  ValueError) before it looks at its argument.
\<close>

record 'm churn_predictor =
  n_estimators :: int
  max_depth :: int
  model :: "'m option"
  feature_importance :: "(string \<times> real) list option"

definition ChurnPredictor :: "int \<Rightarrow> int \<Rightarrow> 'm churn_predictor" where
  "ChurnPredictor n d =
     \<lparr>n_estimators = n, max_depth = d, model = None, feature_importance = None\<rparr>"

definition train ::
  "('x \<Rightarrow> 'y \<Rightarrow> error + 'm) \<Rightarrow> ('m \<Rightarrow> 'x \<Rightarrow> 'y \<Rightarrow> error + 'r) \<Rightarrow> ('m \<Rightarrow> real list) \<Rightarrow>
   ('x \<Rightarrow> string list) \<Rightarrow> 'm churn_predictor \<Rightarrow> 'x \<Rightarrow> 'y \<Rightarrow> 'm churn_predictor \<times> (error + 'r)" where
  "train split_fit evaluate importances columns self X y =
     (case split_fit X y of Inl e \<Rightarrow> (self, Inl e)
      | Inr m \<Rightarrow>
         let self = self\<lparr>model := Some m\<rparr> in
         (case evaluate m X y of Inl e \<Rightarrow> (self, Inl e)
          | Inr metrics \<Rightarrow>
             (self\<lparr>feature_importance :=
                      Some (sort_key (\<lambda>(f, i). - i) (zip (columns X) (importances m)))\<rparr>,
              Inr metrics)))"

definition predict :: "('m \<Rightarrow> 'x \<Rightarrow> error + 'p) \<Rightarrow> 'm churn_predictor \<Rightarrow> 'x \<Rightarrow> error + 'p" where
  "predict predict_proba self X =
     (case model self of None \<Rightarrow> Inl NotFittedError | Some m \<Rightarrow> predict_proba m X)"

text \<open>\<open>DataFrame.head(n)\<close>: the first \<open>n\<close> rows, or all but the last \<open>-n\<close> for a negative \<open>n\<close>.\<close>

definition head :: "int \<Rightarrow> 'a list \<Rightarrow> 'a list" where
  "head n xs = (if 0 \<le> n then take (nat n) xs else take (length xs - nat (- n)) xs)"

definition get_top_features :: "'m churn_predictor \<Rightarrow> int \<Rightarrow> error + (string \<times> real) list" where
  "get_top_features self n =
     (case feature_importance self of
        None \<Rightarrow> Inl (ValueError ''Model hasn't been trained yet'')
      | Some fi \<Rightarrow> Inr (head n fi))"

section \<open>Segmentation page (src/pages/segmentation.py)\<close>

text \<open>
  \<open>render_segmentation_page\<close> up to the assignment of the \<open>Segment\<close> column; what follows
  in the source only draws charts and tables from the frame. The widgets' values
  (\<open>n_clusters\<close>, \<open>selected_features\<close>) are arguments, the \<open>st.warning\<close> messages shown are
  the result of a call that returns. Imputation, scaling and \<open>KMeans.fit_predict\<close> are
  library calls and together form the parameter \<open>cluster\<close>.
\<close>

datatype ui_event = Warning string

definition render_segmentation_page ::
  "(column list \<Rightarrow> int \<Rightarrow> error + fl list) \<Rightarrow> dataframe \<Rightarrow> int \<Rightarrow> string list \<Rightarrow>
   dataframe \<times> (error + ui_event list)" where
  "render_segmentation_page cluster df n_clusters selected_features =
     (if length selected_features < 2
      then (df, Inr [Warning ''Please select at least 2 features for segmentation''])
      else (case getitems df selected_features of Inl e \<Rightarrow> (df, Inl e)
            | Inr X \<Rightarrow>
               (case cluster X n_clusters of Inl e \<Rightarrow> (df, Inl e)
                | Inr segment \<Rightarrow> (setitem df ''Segment'' (NumCol segment), Inr []))))"

section \<open>The specification's formulas and sample data\<close>

text \<open>
  The definitions of this section follow the words of the specification; the theorems
  compare them with the functions above, which follow the source.
\<close>

definition spec_contract_risk :: "string \<Rightarrow> real" where
  "spec_contract_risk c =
     (if c = ''Month-to-Month'' then 100 else if c = ''One Year'' then 50 else 25)"

definition spec_payment_risk :: "string \<Rightarrow> real" where
  "spec_payment_risk p =
     (if p = ''Electronic check'' then 80 else if p = ''Mailed check'' then 60 else 40)"


definition contract_types :: "string set" where
  "contract_types = {''Month-to-Month'', ''One Year'', ''Two Year''}"

definition payment_methods :: "string set" where
  "payment_methods = {''Electronic check'', ''Mailed check'', ''Bank transfer (automatic)'', ''Credit card (automatic)''}"

definition interval_category :: "real \<Rightarrow> string option" where
  "interval_category x =
     (if 0 < x \<and> x \<le> 30 then Some ''Low Risk''
      else if 30 < x \<and> x \<le> 60 then Some ''Medium Risk''
      else if 60 < x \<and> x \<le> 100 then Some ''High Risk''
      else None)"

text \<open>
  The category the specification gives a score: \<open>(0,30]\<close> Low, \<open>(30,60]\<close> Medium,
  \<open>(60,100]\<close> High, and the boundary 0 itself Low.
\<close>

definition spec_risk_category :: "real \<Rightarrow> string option" where
  "spec_risk_category x =
     (if x = 0 \<or> (0 < x \<and> x \<le> 30) then Some ''Low Risk''
      else if 30 < x \<and> x \<le> 60 then Some ''Medium Risk''
      else if 60 < x \<and> x \<le> 100 then Some ''High Risk''
      else None)"






text \<open>
  The columns of a customer record: those the seeder writes, and \<open>LastUpdate\<close>, which
  the loader adds.
\<close>

definition base_fields :: "string list" where
  "base_fields =
     [''CustomerID'', ''Gender'', ''Age'', ''Tenure'', ''ContractType'', ''MonthlyCharges'',
      ''TotalCharges'', ''InternetService'', ''PhoneService'', ''StreamingTV'',
      ''StreamingMovies'', ''PaymentMethod'', ''SatisfactionScore'', ''Churn'', ''LastUpdate'']"

text \<open>Two records: a new month-to-month customer and a long-standing two-year one.\<close>

definition df_demo :: dataframe where
  "df_demo =
     [(''Tenure'', NumCol [Fin 3, Fin 12]),
      (''SatisfactionScore'', NumCol [Fin 2, Fin 5]),
      (''ContractType'', ObjCol [Some ''Month-to-Month'', Some ''Two Year'']),
      (''PaymentMethod'', ObjCol [Some ''Electronic check'', Some ''Credit card (automatic)''])]"


text \<open>
  Two records inside the schema; the exact value of the risk formula on the first one
  is 30, an edge of the categories.
\<close>

definition df_edge :: dataframe where
  "df_edge =
     [(''Tenure'', IntCol [11, 12]),
      (''SatisfactionScore'', NumCol [Fin 3.25, Fin 5]),
      (''ContractType'', ObjCol [Some ''Two Year'', Some ''Two Year'']),
      (''PaymentMethod'', ObjCol [Some ''Mailed check'', Some ''Credit card (automatic)''])]"



text \<open>
  Four accounts with different total charges, four accounts with the same total
  charges, and four accounts of which the middle two have the same total charges.
\<close>

definition df_accounts :: dataframe where
  "df_accounts =
     [(''MonthlyCharges'', NumCol [Fin 20, Fin 50, Fin 70, Fin 100]),
      (''Tenure'', NumCol [Fin 1, Fin 2, Fin 3, Fin 4]),
      (''TotalCharges'', NumCol [Fin 20, Fin 100, Fin 210, Fin 400]),
      (''Churn'', NumCol [Fin 1, Fin 0, Fin 0, Fin 0])]"



text \<open>
  A frame without a \<open>Churn\<close> column, and a stand-in for the library's scaler that
  returns its input.
\<close>

definition df_people :: dataframe where
  "df_people =
     [(''CustomerID'', NumCol [Fin 1, Fin 2]),
      (''Gender'', ObjCol [Some ''Male'', Some ''Female'']),
      (''Tenure'', NumCol [Fin 3, Fin 12])]"

definition identity_scaler :: "unit option \<Rightarrow> fl list list \<Rightarrow> unit option \<times> (error + fl list list)" where
  "identity_scaler st cols = (Some (), Inr cols)"

section \<open>Properties\<close>

subsection \<open>Risk score\<close>

lemma foldl_fl_max_Fin: "foldl fl_max (Fin t) (map Fin ts) = Fin (foldl max t ts)"
  by (induction ts arbitrary: t) (auto simp: fl_max_def max_def)

lemma foldl_max_Max: "foldl max (t::real) ts = Max (set (t # ts))"
proof (induction ts arbitrary: t)
  case Nil
  then show ?case by simp
next
  case (Cons a ts)
  have "Max (set (max t a # ts)) = Max (set (t # a # ts))"
    by (cases "ts = []") (auto simp: max.assoc)
  with Cons show ?case by simp
qed

lemma series_max_Fin: "ts \<noteq> [] \<Longrightarrow> series_max (map Fin ts) = Fin (Max (set ts))"
proof -
  assume ne: "ts \<noteq> []"
  have f: "filter (\<lambda>x. x \<noteq> NaN) (map Fin ts) = map Fin ts"
    by (induction ts) auto
  from ne obtain t ts' where ts: "ts = t # ts'" by (cases ts) auto
  show ?thesis
    unfolding series_max_def f
    by (simp only: ts list.map list.case foldl_fl_max_Fin foldl_max_Max)
qed

lemma map_cell_contract:
  "c \<in> contract_types \<Longrightarrow> map_cell contract_risk_map (Some c) = Fin (spec_contract_risk c)"
  by (auto simp: contract_types_def map_cell_def contract_risk_map_def spec_contract_risk_def)

lemma map_cell_payment:
  "p \<in> payment_methods \<Longrightarrow> map_cell payment_risk_map (Some p) = Fin (spec_payment_risk p)"
  by (auto simp: payment_methods_def map_cell_def payment_risk_map_def spec_payment_risk_def)










subsection \<open>Float64 rounding\<close>

lemma floor_log2_eq: "0 < x \<Longrightarrow> floor_log2 x = \<lfloor>log 2 x\<rfloor>"
proof (induction x rule: floor_log2.induct)
  case (1 x)
  show ?case
  proof (cases "x < 1")
    case True
    have "floor_log2 x = floor_log2 (2 * x) - 1"
      using 1(3) True by (subst floor_log2.simps) simp
    also have "floor_log2 (2 * x) = \<lfloor>log 2 (2 * x)\<rfloor>"
      using 1(1) 1(3) True by simp
    also have "log 2 (2 * x) = 1 + log 2 x" using 1(3) by (simp add: log_mult)
    finally show ?thesis by simp
  next
    case False
    show ?thesis
    proof (cases "2 \<le> x")
      case True
      have "floor_log2 x = floor_log2 (x / 2) + 1"
        using 1(3) False True by (subst floor_log2.simps) simp
      also have "floor_log2 (x / 2) = \<lfloor>log 2 (x / 2)\<rfloor>"
        using 1(2) 1(3) False True by simp
      also have "log 2 (x / 2) = log 2 x - 1" using 1(3) by (simp add: log_divide)
      finally show ?thesis by simp
    next
      case g: False
      have "floor_log2 x = 0" using 1(3) False g by (subst floor_log2.simps) simp
      moreover have "\<lfloor>log 2 x\<rfloor> = 0"
        using 1(3) False g by (subst floor_log_eq_powr_iff) simp_all
      ultimately show ?thesis by simp
    qed
  qed
qed

lemma pow2_eq: "pow2 e = 2 powr of_int e"
proof (cases "0 \<le> e")
  case True
  then have "(2::real) powr of_int e = 2 powr real (nat e)" by simp
  then show ?thesis using True by (simp add: pow2_def powr_realpow del: of_nat_nat)
next
  case False
  then have "(2::real) powr of_int e = 2 powr (- real (nat (- e)))" by simp
  then show ?thesis using False
    by (simp add: pow2_def powr_minus powr_realpow inverse_eq_divide del: of_nat_nat)
qed

lemma ulp_exp_log: "x \<noteq> 0 \<Longrightarrow> ulp_exp x = max \<lfloor>log 2 \<bar>x\<bar>\<rfloor> (- 1022) - 52"
  by (simp add: ulp_exp_def floor_log2_eq)

lemma round64_powr:
  "round64 x =
     (if x = 0 then Fin 0
      else let u = 2 powr of_int (ulp_exp x); y = of_int (rne (x / u)) * u
           in if 2 ^ 1024 \<le> y then PInf else if y \<le> - (2 ^ 1024) then NInf else Fin y)"
  by (simp add: round64_def pow2_eq)

lemma rne_of_int: "rne (of_int k) = k"
  by (simp add: rne_def)

lemma rne_cases: "rne x = \<lfloor>x\<rfloor> \<or> rne x = \<lfloor>x\<rfloor> + 1"
  by (simp add: rne_def Let_def)

lemma rne_mono:
  assumes "x \<le> y"
  shows "rne x \<le> rne y"
proof (cases "\<lfloor>x\<rfloor> = \<lfloor>y\<rfloor>")
  case True
  have "x - of_int \<lfloor>x\<rfloor> \<le> y - of_int \<lfloor>x\<rfloor>" using assms by simp
  then show ?thesis
    unfolding rne_def Let_def True [symmetric] by auto
next
  case False
  have "\<lfloor>x\<rfloor> \<le> \<lfloor>y\<rfloor>" using assms by (rule floor_mono)
  with False have "\<lfloor>x\<rfloor> + 1 \<le> \<lfloor>y\<rfloor>" by simp
  moreover have "rne x \<le> \<lfloor>x\<rfloor> + 1" using rne_cases [of x] by auto
  moreover have "\<lfloor>y\<rfloor> \<le> rne y" using rne_cases [of y] by auto
  ultimately show ?thesis by simp
qed

lemma ulp_exp_eq:
  assumes "x \<noteq> 0" "2 powr of_int e \<le> \<bar>x\<bar>" "\<bar>x\<bar> < 2 powr of_int (e + 1)" "- 1022 \<le> e"
  shows "ulp_exp x = e - 52"
proof -
  have "\<lfloor>log 2 \<bar>x\<bar>\<rfloor> = e"
    using assms by (subst floor_log_eq_powr_iff) simp_all
  then show ?thesis using assms(1,4) by (simp add: ulp_exp_log)
qed

lemma ulp_exp_le:
  assumes "x \<noteq> 0" "\<bar>x\<bar> \<le> 2 ^ 52"
  shows "ulp_exp x \<le> 0"
proof -
  have "log 2 \<bar>x\<bar> \<le> 52"
    using assms by (subst log_le_iff) simp_all
  then have "\<lfloor>log 2 \<bar>x\<bar>\<rfloor> \<le> 52" by (simp add: floor_le_iff)
  then show ?thesis using assms(1) by (simp add: ulp_exp_log)
qed

lemma round64_bounds:
  assumes lo: "of_int lo \<le> x" and hi: "x \<le> of_int hi"
      and small: "\<bar>lo\<bar> \<le> 2 ^ 52" "\<bar>hi\<bar> \<le> 2 ^ 52"
  shows "\<exists>y. round64 x = Fin y \<and> of_int lo \<le> y \<and> y \<le> of_int hi"
proof (cases "x = 0")
  case True
  then show ?thesis using lo hi by (simp add: round64_powr)
next
  case False
  have ax: "\<bar>x\<bar> \<le> 2 ^ 52"
  proof -
    have "\<bar>x\<bar> \<le> max \<bar>of_int lo\<bar> \<bar>of_int hi :: real\<bar>" using lo hi by linarith
    moreover have "\<bar>of_int lo :: real\<bar> \<le> 2 ^ 52" "\<bar>of_int hi :: real\<bar> \<le> 2 ^ 52"
      using small by (metis of_int_abs of_int_le_numeral_power_cancel_iff)+
    ultimately show ?thesis by linarith
  qed
  define n where "n = nat (- ulp_exp x)"
  define u :: real where "u = 2 powr of_int (ulp_exp x)"
  have e: "ulp_exp x = - int n" using ulp_exp_le [OF False ax] by (simp add: n_def)
  have u: "u = 1 / 2 ^ n" by (simp add: u_def e powr_minus powr_realpow inverse_eq_divide)
  have upos: "0 < u" by (simp add: u)
  have "of_int lo / u = of_int (lo * 2 ^ n)" "of_int hi / u = of_int (hi * 2 ^ n)"
    by (simp_all add: u)
  moreover have "of_int lo / u \<le> x / u" "x / u \<le> of_int hi / u"
    using lo hi upos by (simp_all add: divide_right_mono)
  ultimately have "rne (of_int (lo * 2 ^ n)) \<le> rne (x / u)" "rne (x / u) \<le> rne (of_int (hi * 2 ^ n))"
    using rne_mono by metis+
  then have r: "lo * 2 ^ n \<le> rne (x / u)" "rne (x / u) \<le> hi * 2 ^ n"
    by (simp_all only: rne_of_int)
  define y where "y = of_int (rne (x / u)) * u"
  have "(of_int (lo * 2 ^ n) :: real) \<le> of_int (rne (x / u))"
       "(of_int (rne (x / u)) :: real) \<le> of_int (hi * 2 ^ n)"
    using r by (simp_all only: of_int_le_iff)
  then have "of_int (lo * 2 ^ n) * u \<le> y" "y \<le> of_int (hi * 2 ^ n) * u"
    unfolding y_def using upos by (simp_all only: mult_le_cancel_right_pos)
  then have b: "of_int lo \<le> y" "y \<le> of_int hi" by (simp_all add: u)
  have "\<bar>y\<bar> \<le> 2 ^ 52"
  proof -
    have "\<bar>y\<bar> \<le> max \<bar>of_int lo\<bar> \<bar>of_int hi :: real\<bar>" using b by linarith
    moreover have "\<bar>of_int lo :: real\<bar> \<le> 2 ^ 52" "\<bar>of_int hi :: real\<bar> \<le> 2 ^ 52"
      using small by (metis of_int_abs of_int_le_numeral_power_cancel_iff)+
    ultimately show ?thesis by linarith
  qed
  moreover have "(2::real) ^ 52 < 2 ^ 1024" by (rule power_strict_increasing) simp_all
  ultimately have "\<not> 2 ^ 1024 \<le> y" "\<not> y \<le> - (2 ^ 1024)" by linarith+
  then have "round64 x = Fin y"
    using False by (simp add: round64_powr Let_def y_def u_def)
  with b show ?thesis by blast
qed

lemma round64_small:
  assumes "x \<noteq> 0" "\<bar>x\<bar> \<le> 2 ^ 52" "ulp_exp x = - int n"
  shows "round64 x = Fin (of_int (rne (x * 2 ^ n)) / 2 ^ n)"
proof -
  have "of_int (- (2 ^ 52)) \<le> x" "x \<le> of_int (2 ^ 52)" using assms(2) by simp_all
  from round64_bounds [OF this]
  obtain y where y: "round64 x = Fin y" by auto
  have u: "2 powr of_int (ulp_exp x) = 1 / (2::real) ^ n"
    by (simp add: assms(3) powr_minus powr_realpow inverse_eq_divide)
  have "round64 x = Fin (of_int (rne (x / (1 / 2 ^ n))) * (1 / 2 ^ n)) \<or> round64 x = PInf
      \<or> round64 x = NInf"
    using assms(1) by (simp add: round64_powr Let_def u)
  with y show ?thesis by auto
qed

lemma round64_eval_frac:
  assumes "1 / 2 ^ n \<le> \<bar>x\<bar>" "\<bar>x\<bar> < 2 / 2 ^ n" "n \<le> 1022"
  shows "round64 x = Fin (of_int (rne (x * 2 ^ (52 + n))) / 2 ^ (52 + n))"
proof -
  have pos: "(0::real) < 1 / 2 ^ n" by simp
  with assms(1) have "0 < \<bar>x\<bar>" by linarith
  then have nz: "x \<noteq> 0" by simp
  have "(1::real) / 2 ^ n \<le> 1" by (simp add: divide_le_eq)
  have a: "\<bar>x\<bar> \<le> 2 ^ 52"
  proof -
    have "(2::real) / 2 ^ n \<le> 2" by (simp add: divide_le_eq)
    then show ?thesis using assms(2) by simp
  qed
  have "ulp_exp x = - int n - 52"
  proof (rule ulp_exp_eq [OF nz])
    show "2 powr real_of_int (- int n) \<le> \<bar>x\<bar>"
      using assms(1) by (simp add: powr_minus powr_realpow inverse_eq_divide)
    have "(2::real) powr (- real n + 1) = 2 powr (- real n) * 2 powr 1"
      by (rule powr_add)
    then have "(2::real) powr real_of_int (- int n + 1) = 2 powr (- real n) * 2 powr 1"
      by (simp add: add.commute)
    also have "\<dots> = 2 / 2 ^ n"
      by (simp add: powr_minus powr_realpow inverse_eq_divide)
    finally show "\<bar>x\<bar> < 2 powr real_of_int (- int n + 1)"
      using assms(2) by simp
    show "- 1022 \<le> - int n" using assms(3) by simp
  qed
  then have "ulp_exp x = - int (52 + n)" by simp
  from round64_small [OF nz a this] show ?thesis .
qed


lemma round64_03: "round64 (3 / 10) = Fin (5404319552844595 / 18014398509481984)"
  using round64_eval_frac [of 2 "3 / 10"] by (simp add: rne_def)

lemma round64_02: "round64 (1 / 5) = Fin (3602879701896397 / 18014398509481984)"
  using round64_eval_frac [of 3 "1 / 5"] by (simp add: rne_def)



subsection \<open>Risk categories\<close>

text \<open>
  On concrete numbers the rounding is computed by rewriting with the definitions.
\<close>

lemmas f64_eval = round64_def ulp_exp_def floor_log2.simps pow2_def rne_def Let_def

lemma bin_id_risk:
  "bin_id risk_bins False (Fin x) =
     (if x \<le> 0 then 0 else if x \<le> 30 then 1 else if x \<le> 60 then 2 else if x \<le> 100 then 3 else 4)"
  by (simp add: bin_id_def searchsorted_left_def risk_bins_def)

lemma pd_cut_risk: "pd_cut risk_bins risk_labels (map Fin rs) = Inr (map interval_category rs)"
proof -
  have ok: "\<not> decreasing_step risk_bins" "distinct risk_bins" "distinct risk_labels"
    "length risk_labels = length risk_bins - 1" "length risk_bins = 4"
    by (simp_all add: risk_bins_def risk_labels_def)
  have cell: "(let i = bin_id risk_bins False (Fin x) in
                 if i = length risk_bins \<or> i = 0 then None
                 else Some (risk_labels ! (i - 1))) = interval_category x" for x
    unfolding bin_id_risk ok(5)
    by (simp add: interval_category_def risk_labels_def)
  show ?thesis
    unfolding pd_cut_def bins_to_cuts_def
    using ok(1-4) by (simp add: cell comp_def)
qed

lemma calculate_risk_score_with_id: "calculate_risk_score_with (\<lambda>x. x) df = calculate_risk_score df"
  by (simp add: calculate_risk_score_with_def calculate_risk_score_def series_add_def scale_def
        Let_def split: sum.splits)

lemma f64_bounds:
  assumes "of_int lo \<le> x" "x \<le> of_int hi" "\<bar>lo\<bar> \<le> 2 ^ 52" "\<bar>hi\<bar> \<le> 2 ^ 52"
  shows "\<exists>y. f64 (Fin x) = Fin y \<and> of_int lo \<le> y \<and> y \<le> of_int hi"
  using round64_bounds [OF assms] by simp

lemma f64_risk_term:
  assumes "0 \<le> q" "q \<le> 1"
  shows "\<exists>a. f64 (fl_mul (f64 (fl_sub (Fin 100) (f64 (fl_mul (f64 (Fin q)) (Fin 100)))))
                  (f64 (Fin (3 / 10)))) = Fin a \<and> 0 \<le> a \<and> a \<le> 30"
proof -
  from f64_bounds [of 0 q 1] assms
  obtain q1 where q1: "f64 (Fin q) = Fin q1" "0 \<le> q1" "q1 \<le> 1" by auto
  have "0 \<le> q1 * 100" "q1 * 100 \<le> 100" using q1 by simp_all
  with f64_bounds [of 0 "q1 * 100" 100]
  obtain q2 where q2: "f64 (Fin (q1 * 100)) = Fin q2" "0 \<le> q2" "q2 \<le> 100" by auto
  have "0 \<le> 100 - q2" "100 - q2 \<le> 100" using q2 by simp_all
  with f64_bounds [of 0 "100 - q2" 100]
  obtain tr where tr: "f64 (Fin (100 - q2)) = Fin tr" "0 \<le> tr" "tr \<le> 100" by auto
  define c3 :: real where "c3 = 5404319552844595 / 18014398509481984"
  have w: "f64 (Fin (3 / 10)) = Fin c3" by (simp add: round64_03 c3_def)
  have c3: "0 \<le> c3" "c3 \<le> 3 / 10" by (simp_all add: c3_def)
  have "0 \<le> tr * c3" using tr c3 by simp
  moreover have "tr * c3 \<le> 100 * (3 / 10)" using tr c3 by (intro mult_mono) simp_all
  ultimately have "0 \<le> tr * c3" "tr * c3 \<le> 30" by simp_all
  with f64_bounds [of 0 "tr * c3" 30]
  obtain a where a: "f64 (Fin (tr * c3)) = Fin a" "0 \<le> a" "a \<le> 30" by auto
  show ?thesis
    using q1 q2 tr w a by (simp add: fl_sub_def)
qed

lemma f64_weight_term:
  assumes "0 \<le> v" "of_int lo \<le> v / 5" "v * 21 / 100 \<le> of_int hi"
      and "\<bar>lo\<bar> \<le> 2 ^ 52" "\<bar>hi\<bar> \<le> 2 ^ 52"
  shows "\<exists>a. f64 (fl_mul (Fin v) (f64 (Fin (1 / 5)))) = Fin a \<and> of_int lo \<le> a \<and> a \<le> of_int hi"
proof -
  define c2 :: real where "c2 = 3602879701896397 / 18014398509481984"
  have w: "f64 (Fin (1 / 5)) = Fin c2" by (simp add: round64_02 c2_def)
  have c2: "1 / 5 \<le> c2" "c2 \<le> 21 / 100" by (simp_all add: c2_def)
  have "v * (1 / 5) \<le> v * c2" "v * c2 \<le> v * (21 / 100)"
    using assms(1) c2 by (simp_all only: mult_left_mono)
  then have "of_int lo \<le> v * c2" "v * c2 \<le> of_int hi" using assms(2,3) by simp_all
  from f64_bounds [OF this assms(4,5)]
  obtain a where a: "f64 (Fin (v * c2)) = Fin a" "of_int lo \<le> a" "a \<le> of_int hi" by auto
  show ?thesis using w a by simp
qed

lemma f64_sum:
  assumes "of_int lo \<le> a + b" "a + b \<le> of_int hi" "\<bar>lo\<bar> \<le> 2 ^ 52" "\<bar>hi\<bar> \<le> 2 ^ 52"
  shows "\<exists>y. f64 (fl_add (Fin a) (Fin b)) = Fin y \<and> of_int lo \<le> y \<and> y \<le> of_int hi"
  using f64_bounds [OF assms] by simp

lemma f64_risk_entry:
  assumes t: "0 \<le> t" "t \<le> m" "0 < m" and s: "1 \<le> s" "s \<le> 5"
      and c: "c \<in> contract_types" and p: "p \<in> payment_methods"
  shows "\<exists>y.
     f64 (fl_add (f64 (fl_add (f64 (fl_add (f64 (fl_add (Fin 0)
       (f64 (fl_mul (f64 (fl_sub (Fin 100) (f64 (fl_mul (f64 (fl_div (Fin t) (Fin m))) (Fin 100)))))
                    (f64 (Fin (3 / 10)))))))
       (f64 (fl_mul (f64 (fl_sub (Fin 100) (f64 (fl_mul (f64 (fl_div (Fin s) (Fin 5))) (Fin 100)))))
                    (f64 (Fin (3 / 10)))))))
       (f64 (fl_mul (Fin (spec_contract_risk c)) (f64 (Fin (1 / 5)))))))
       (f64 (fl_mul (Fin (spec_payment_risk p)) (f64 (Fin (1 / 5))))))
     = Fin y \<and> 13 \<le> y \<and> y \<le> 98"
proof -
  have "0 \<le> t / m" "t / m \<le> 1" using t by simp_all
  from f64_risk_term [OF this]
  obtain a where a: "f64 (fl_mul (f64 (fl_sub (Fin 100) (f64 (fl_mul (f64 (Fin (t / m))) (Fin 100)))))
                  (f64 (Fin (3 / 10)))) = Fin a" "0 \<le> a" "a \<le> 30" by blast
  have "0 \<le> s / 5" "s / 5 \<le> 1" using s by simp_all
  from f64_risk_term [OF this]
  obtain b where b: "f64 (fl_mul (f64 (fl_sub (Fin 100) (f64 (fl_mul (f64 (Fin (s / 5))) (Fin 100)))))
                  (f64 (Fin (3 / 10)))) = Fin b" "0 \<le> b" "b \<le> 30" by blast
  have "0 \<le> spec_contract_risk c" "of_int 5 \<le> spec_contract_risk c / 5"
    "spec_contract_risk c * 21 / 100 \<le> of_int 21"
    by (simp_all add: spec_contract_risk_def)
  from f64_weight_term [OF this]
  obtain cc where cc: "f64 (fl_mul (Fin (spec_contract_risk c)) (f64 (Fin (1 / 5)))) = Fin cc"
    "5 \<le> cc" "cc \<le> 21" by auto
  have "0 \<le> spec_payment_risk p" "of_int 8 \<le> spec_payment_risk p / 5"
    "spec_payment_risk p * 21 / 100 \<le> of_int 17"
    by (simp_all add: spec_payment_risk_def)
  from f64_weight_term [OF this]
  obtain pp where pp: "f64 (fl_mul (Fin (spec_payment_risk p)) (f64 (Fin (1 / 5)))) = Fin pp"
    "8 \<le> pp" "pp \<le> 17" by auto
  from f64_sum [of 0 0 a 30] a
  obtain s1 where s1: "f64 (fl_add (Fin 0) (Fin a)) = Fin s1" "0 \<le> s1" "s1 \<le> 30" by auto
  from f64_sum [of 0 s1 b 60] s1 b
  obtain s2 where s2: "f64 (fl_add (Fin s1) (Fin b)) = Fin s2" "0 \<le> s2" "s2 \<le> 60" by auto
  from f64_sum [of 5 s2 cc 81] s2 cc
  obtain s3 where s3: "f64 (fl_add (Fin s2) (Fin cc)) = Fin s3" "5 \<le> s3" "s3 \<le> 81" by auto
  from f64_sum [of 13 s3 pp 98] s3 pp
  obtain s4 where s4: "f64 (fl_add (Fin s3) (Fin pp)) = Fin s4" "13 \<le> s4" "s4 \<le> 98" by auto
  have d1: "fl_div (Fin t) (Fin m) = Fin (t / m)" using t by simp
  have d2: "fl_div (Fin s) (Fin 5) = Fin (s / 5)" by simp
  show ?thesis
    unfolding d1 d2 a(1) b(1) cc(1) pp(1) s1(1) s2(1) s3(1) s4(1)
    using s4 by simp
qed

lemma interval_category_spec:
  "0 < x \<Longrightarrow> x \<le> 100 \<Longrightarrow>
     interval_category x = spec_risk_category x \<and>
     spec_risk_category x \<in> {Some ''Low Risk'', Some ''Medium Risk'', Some ''High Risk''}"
  by (simp add: interval_category_def spec_risk_category_def)

text \<open>
  \<open>pd.cut\<close> itself, called without \<open>include_lowest\<close>, puts a score of 0 in no interval.
\<close>

lemma pd_cut_zero: "pd_cut risk_bins risk_labels [Fin 0] = Inr [None]"
  using pd_cut_risk [of "[0]"] by (simp add: interval_category_def)

text \<open>
  The first record of \<open>df_edge\<close>: the exact value of the formula is 30, float64
  arithmetic gives 30.000000000000004 (\<open>8444249301319681 / 2^48\<close>).
\<close>

lemma risk_score_edge_exact: "calculate_risk_score df_edge = Inr [Fin 30, Fin 13]"
  by (simp add: calculate_risk_score_def df_edge_def getitem_num_def getitem_def
        series_max_def fl_sub_def fl_max_def map_cell_def contract_risk_map_def
        payment_risk_map_def series_add_def scale_def f64_eval)

lemma risk_score_edge_f64:
  "calculate_risk_score_with f64 df_edge
     = Inr [Fin (8444249301319681 / 281474976710656), Fin 13]"
  by (simp add: calculate_risk_score_with_def df_edge_def getitem_num_def getitem_def
        series_max_def fl_sub_def fl_max_def map_cell_def contract_risk_map_def
        payment_risk_map_def f64_eval)

text \<open>
  Claim C2. On a frame that satisfies the preconditions of the risk score (contract
  types and payment methods from the tables, satisfaction in [1,5], tenure non-negative
  with a positive maximum), \<open>get_risk_categories\<close> returns one category per record, and
  it is the category the specification gives the record's risk score as float64
  arithmetic computes it: Low on \<open>(0,30]\<close> and at 0, Medium on \<open>(30,60]\<close>, High on
  \<open>(60,100]\<close>. The score is positive and at most 100, so the category is one of the
  three.
\<close>

theorem get_risk_categories_spec:
  assumes T: "getitem_num df ''Tenure'' = Inr (map Fin ts)"
      and S: "getitem_num df ''SatisfactionScore'' = Inr (map Fin ss)"
      and C: "map_of df ''ContractType'' = Some (ObjCol (map Some cs))"
      and P: "map_of df ''PaymentMethod'' = Some (ObjCol (map Some ps))"
      and len: "length ss = length ts" "length cs = length ts" "length ps = length ts"
      and cs: "set cs \<subseteq> contract_types" and ps: "set ps \<subseteq> payment_methods"
      and ss: "\<forall>s \<in> set ss. 1 \<le> s \<and> s \<le> 5"
      and ts: "\<forall>t \<in> set ts. 0 \<le> t"
      and ne: "ts \<noteq> []" and mx: "0 < Max (set ts)"
  shows "\<exists>rs cats. calculate_risk_score_with f64 df = Inr (map Fin rs) \<and>
           get_risk_categories df = Inr cats \<and> length rs = length ts \<and>
           length cats = length ts \<and>
           (\<forall>i < length ts.
              cats ! i = spec_risk_category (rs ! i) \<and> 0 < rs ! i \<and> rs ! i \<le> 100 \<and>
              cats ! i \<in> {Some ''Low Risk'', Some ''Medium Risk'', Some ''High Risk''})"
proof -
  define m where "m = Max (set ts)"
  have m0: "0 < m" using mx by (simp add: m_def)
  have smax: "series_max (map Fin ts) = Fin m"
    using ne by (simp add: series_max_Fin m_def)
  have cmap: "map (map_cell contract_risk_map) (map Some cs) = map (\<lambda>c. Fin (spec_contract_risk c)) cs"
    using cs by (auto simp: map_cell_contract)
  have pmap: "map (map_cell payment_risk_map) (map Some ps) = map (\<lambda>c. Fin (spec_payment_risk c)) ps"
    using ps by (auto simp: map_cell_payment)
  define entry where "entry i =
     f64 (fl_add (f64 (fl_add (f64 (fl_add (f64 (fl_add (Fin 0)
       (f64 (fl_mul (f64 (fl_sub (Fin 100) (f64 (fl_mul (f64 (fl_div (Fin (ts ! i)) (Fin m))) (Fin 100)))))
                    (f64 (Fin (3 / 10)))))))
       (f64 (fl_mul (f64 (fl_sub (Fin 100) (f64 (fl_mul (f64 (fl_div (Fin (ss ! i)) (Fin 5))) (Fin 100)))))
                    (f64 (Fin (3 / 10)))))))
       (f64 (fl_mul (Fin (spec_contract_risk (cs ! i))) (f64 (Fin (1 / 5)))))))
       (f64 (fl_mul (Fin (spec_payment_risk (ps ! i))) (f64 (Fin (1 / 5))))))" for i
  define scores where "scores = map entry [0..<length ts]"
  have run: "calculate_risk_score_with f64 df = Inr scores"
  proof -
    have "calculate_risk_score_with f64 df = Inr
      (map2 (\<lambda>x y. f64 (fl_add x y))
        (map2 (\<lambda>x y. f64 (fl_add x y))
          (map2 (\<lambda>x y. f64 (fl_add x y))
            (map (\<lambda>y. f64 (fl_add (Fin 0) y))
              (map (\<lambda>x. f64 (fl_mul x (f64 (Fin (3 / 10)))))
                (map (\<lambda>x. f64 (fl_sub (Fin 100) (f64 (fl_mul (f64 (fl_div x (Fin m))) (Fin 100)))))
                  (map Fin ts))))
            (map (\<lambda>x. f64 (fl_mul x (f64 (Fin (3 / 10)))))
              (map (\<lambda>x. f64 (fl_sub (Fin 100) (f64 (fl_mul (f64 (fl_div x (Fin 5))) (Fin 100)))))
                (map Fin ss))))
          (map (\<lambda>x. f64 (fl_mul x (f64 (Fin (1 / 5))))) (map (\<lambda>c. Fin (spec_contract_risk c)) cs)))
        (map (\<lambda>x. f64 (fl_mul x (f64 (Fin (1 / 5))))) (map (\<lambda>c. Fin (spec_payment_risk c)) ps)))"
      unfolding calculate_risk_score_with_def
      by (simp add: T S getitem_def C P smax cmap pmap Let_def del: map_map f64.simps)
    also have "\<dots> = Inr scores"
      unfolding scores_def
      by (simp del: f64.simps, rule nth_equalityI)
         (simp_all add: len entry_def del: f64.simps)
    finally show ?thesis .
  qed
  have ent: "\<exists>y. entry i = Fin y \<and> 13 \<le> y \<and> y \<le> 98" if i: "i < length ts" for i
  proof -
    have t: "0 \<le> ts ! i" "ts ! i \<le> m" using i ts by (simp_all add: m_def)
    have s: "1 \<le> ss ! i" "ss ! i \<le> 5" using i ss len by simp_all
    have c: "cs ! i \<in> contract_types" using i cs len by (metis nth_mem subsetD)
    have p: "ps ! i \<in> payment_methods" using i ps len by (metis nth_mem subsetD)
    show ?thesis unfolding entry_def by (rule f64_risk_entry [OF t m0 s c p])
  qed
  define val where "val v = (case v of Fin y \<Rightarrow> y | _ \<Rightarrow> 0)" for v
  define rs where "rs = map val scores"
  have lrs: "length rs = length ts" by (simp add: rs_def scores_def)
  have rsi: "entry i = Fin (rs ! i) \<and> 13 \<le> rs ! i \<and> rs ! i \<le> 98" if i: "i < length ts" for i
  proof -
    from ent [OF i] obtain y where y: "entry i = Fin y" "13 \<le> y" "y \<le> 98" by blast
    have "rs ! i = y" using i by (simp add: rs_def scores_def y(1) val_def)
    with y show ?thesis by simp
  qed
  have sc: "scores = map Fin rs"
  proof (rule nth_equalityI)
    show "length scores = length (map Fin rs)" by (simp add: rs_def)
  next
    fix i assume "i < length scores"
    then have i: "i < length ts" by (simp add: scores_def)
    then have "scores ! i = entry i" by (simp add: scores_def)
    with rsi [OF i] show "scores ! i = map Fin rs ! i" using i lrs by simp
  qed
  have cats: "get_risk_categories df = Inr (map interval_category rs)"
    by (simp add: get_risk_categories_def run sc pd_cut_risk)
  have "\<forall>i < length ts.
      map interval_category rs ! i = spec_risk_category (rs ! i) \<and> 0 < rs ! i \<and> rs ! i \<le> 100 \<and>
      map interval_category rs ! i \<in> {Some ''Low Risk'', Some ''Medium Risk'', Some ''High Risk''}"
  proof (intro allI impI)
    fix i assume i: "i < length ts"
    from rsi [OF i] have b: "0 < rs ! i" "rs ! i \<le> 100" by simp_all
    have e: "map interval_category rs ! i = interval_category (rs ! i)"
      using i lrs by simp
    show "map interval_category rs ! i = spec_risk_category (rs ! i) \<and> 0 < rs ! i \<and>
      rs ! i \<le> 100 \<and>
      map interval_category rs ! i \<in> {Some ''Low Risk'', Some ''Medium Risk'', Some ''High Risk''}"
      unfolding e using b interval_category_spec [OF b] by simp
  qed
  then have all: "\<forall>i < length ts.
      map interval_category rs ! i = spec_risk_category (rs ! i) \<and> 0 < rs ! i \<and> rs ! i \<le> 100 \<and>
      map interval_category rs ! i \<in> {Some ''Low Risk'', Some ''Medium Risk'', Some ''High Risk''}" .
  show ?thesis
  proof (intro exI conjI)
    show "calculate_risk_score_with f64 df = Inr (map Fin rs)" using run sc by simp
    show "get_risk_categories df = Inr (map interval_category rs)" by (rule cats)
    show "length rs = length ts" by (rule lrs)
    show "length (map interval_category rs) = length ts" using lrs by simp
    show "\<forall>i < length ts.
      map interval_category rs ! i = spec_risk_category (rs ! i) \<and> 0 < rs ! i \<and> rs ! i \<le> 100 \<and>
      map interval_category rs ! i \<in> {Some ''Low Risk'', Some ''Medium Risk'', Some ''High Risk''}"
      by (rule all)
  qed
qed

theorem get_risk_categories_spec_witness:
  "calculate_risk_score_with f64 df_edge
     = Inr (map Fin [8444249301319681 / 281474976710656, 13]) \<and>
   get_risk_categories df_edge = Inr [Some ''Medium Risk'', Some ''Low Risk'']"
proof -
  let ?ts = "[11, 12 :: real]" and ?ss = "[3.25, 5 :: real]"
  let ?cs = "[''Two Year'', ''Two Year'']"
  let ?ps = "[''Mailed check'', ''Credit card (automatic)'']"
  have "\<exists>rs cats. calculate_risk_score_with f64 df_edge = Inr (map Fin rs) \<and>
           get_risk_categories df_edge = Inr cats \<and> length rs = length ?ts \<and>
           length cats = length ?ts \<and>
           (\<forall>i < length ?ts.
              cats ! i = spec_risk_category (rs ! i) \<and> 0 < rs ! i \<and> rs ! i \<le> 100 \<and>
              cats ! i \<in> {Some ''Low Risk'', Some ''Medium Risk'', Some ''High Risk''})"
    by (rule get_risk_categories_spec [where ss = ?ss and cs = ?cs and ps = ?ps])
       (simp_all add: df_edge_def getitem_num_def getitem_def contract_types_def
          payment_methods_def f64_eval)
  then obtain rs cats where run: "calculate_risk_score_with f64 df_edge = Inr (map Fin rs)"
    and cats: "get_risk_categories df_edge = Inr cats" and len: "length cats = length ?ts"
    and all: "\<And>i. i < length ?ts \<Longrightarrow> cats ! i = spec_risk_category (rs ! i)"
    by blast
  from run have "map Fin rs = [Fin (8444249301319681 / 281474976710656), Fin 13]"
    by (simp add: risk_score_edge_f64)
  then have rs: "rs = [8444249301319681 / 281474976710656, 13]"
    by (auto simp: map_eq_Cons_conv)
  have "cats ! 0 = Some ''Medium Risk''" "cats ! 1 = Some ''Low Risk''"
    using all [of 0] all [of 1] by (simp_all add: rs spec_risk_category_def)
  moreover have "length cats = 2" using len by simp
  ultimately have "cats = [Some ''Medium Risk'', Some ''Low Risk'']"
    by (intro nth_equalityI) (auto simp: less_Suc_eq numeral_2_eq_2)
  with cats run rs show ?thesis by simp
qed

subsection \<open>Engagement score\<close>






subsection \<open>Basic CLV and the frame of the derived columns\<close>

lemma map_of_setitem_same: "map_of (setitem df name col) name = Some col"
  by (induction df) auto

lemma map_of_setitem_other: "k \<noteq> name \<Longrightarrow> map_of (setitem df name col) k = map_of df k"
  by (induction df) auto

text \<open>
  The product by dtype: \<open>0.1 * 3\<close> in float64 is 0.30000000000000004
  (\<open>1351079888211149 / 2^52\<close>), \<open>2^62 * 4\<close> in int64 is 0, and a string times 3 is the
  string three times.
\<close>

lemma col_mul_float64_rounds:
  "col_mul (NumCol [round64 (1 / 10)]) (IntCol [3])
     = Inr (NumCol [Fin (1351079888211149 / 4503599627370496)])"
  by (simp add: round64_def ulp_exp_def floor_log2.simps pow2_def rne_def Let_def)

lemma col_mul_int64_wraps: "col_mul (IntCol [2 ^ 62]) (IntCol [4]) = Inr (IntCol [0])"
  by (simp add: wrap64_def)

lemma col_mul_str_repeats:
  "col_mul (ObjCol [Some ''ab'', None]) (IntCol [3, 3]) = Inr (ObjCol [Some ''ababab'', None])"
  by (simp add: str_times_def numeral_3_eq_3)




lemma calculate_basic_clv_frame:
  "c \<noteq> ''CLV'' \<Longrightarrow> map_of (fst (calculate_basic_clv df)) c = map_of df c"
  by (simp add: calculate_basic_clv_def Let_def map_of_setitem_other split: sum.splits)

lemma segment_value_analysis_frame:
  "c \<noteq> ''ValueSegment'' \<Longrightarrow> map_of (fst (segment_value_analysis df)) c = map_of df c"
  by (simp add: segment_value_analysis_def Let_def map_of_setitem_other split: sum.splits)

lemma calculate_customer_metrics_frame:
  "c \<notin> {''CLV'', ''ARPU'', ''ServiceUsageScore''} \<Longrightarrow>
     map_of (fst (calculate_customer_metrics df)) c = map_of df c"
  by (simp add: calculate_customer_metrics_def Let_def map_of_setitem_other split: sum.splits)

text \<open>
  Claim C9. Each operation that adds a derived column (\<open>calculate_basic_clv\<close>,
  \<open>segment_value_analysis\<close>, \<open>calculate_customer_metrics\<close>) leaves every base field of
  the frame as it was, with the same cells for the same records, whether the operation
  returns or raises.
\<close>

theorem derived_columns_frame:
  assumes "c \<in> set base_fields"
  shows "map_of (fst (calculate_basic_clv df)) c = map_of df c \<and>
         map_of (fst (segment_value_analysis df)) c = map_of df c \<and>
         map_of (fst (calculate_customer_metrics df)) c = map_of df c"
proof -
  have "c \<noteq> ''CLV''" "c \<noteq> ''ValueSegment''" "c \<notin> {''CLV'', ''ARPU'', ''ServiceUsageScore''}"
    using assms by (auto simp: base_fields_def)
  then show ?thesis
    using calculate_basic_clv_frame segment_value_analysis_frame calculate_customer_metrics_frame
    by blast
qed

theorem derived_columns_frame_witness:
  "map_of (fst (calculate_basic_clv df_accounts)) ''Tenure'' = Some (NumCol [Fin 1, Fin 2, Fin 3, Fin 4]) \<and>
   map_of (fst (segment_value_analysis df_accounts)) ''Tenure'' = Some (NumCol [Fin 1, Fin 2, Fin 3, Fin 4]) \<and>
   map_of (fst (calculate_customer_metrics df_accounts)) ''Tenure'' = Some (NumCol [Fin 1, Fin 2, Fin 3, Fin 4])"
  using derived_columns_frame [of "''Tenure''" df_accounts]
  by (simp add: base_fields_def df_accounts_def)

subsection \<open>Churn predictor\<close>

text \<open>
  Claim C3. On a predictor as constructed, before any \<open>train\<close>, \<open>predict\<close> fails for
  every input and \<open>get_top_features\<close> fails for every \<open>n\<close>: the first with
  scikit-learn's NotFittedError, the second with the ValueError the source raises. Both
  are the errors the specification calls InvalidStateError.
\<close>

theorem untrained_predictor_fails:
  "predict predict_proba (ChurnPredictor n d) X = Inl NotFittedError \<and>
   get_top_features (ChurnPredictor n d) k = Inl (ValueError ''Model hasn't been trained yet'')"
  by (simp add: predict_def get_top_features_def ChurnPredictor_def)

subsection \<open>Segmentation page\<close>

text \<open>
  Claim C5, as stated, fails: with one selected feature the page raises nothing. It shows
  a warning and returns.
\<close>

theorem segmentation_too_few_counterexample:
  "render_segmentation_page (\<lambda>X k. Inl TypeError) df_demo 3 [''Tenure'']
     = (df_demo, Inr [Warning ''Please select at least 2 features for segmentation''])"
  by (simp add: render_segmentation_page_def)

text \<open>
  Claim C5, amended. With fewer than 2 selected features the page shows the warning
  \<open>Please select at least 2 features for segmentation\<close> and returns without an
  exception; the frame is unchanged, so no segment ids are assigned, and the clustering
  is not run.
\<close>

theorem segmentation_too_few_warns:
  assumes "length selected_features < 2"
  shows "render_segmentation_page cluster df n_clusters selected_features
           = (df, Inr [Warning ''Please select at least 2 features for segmentation''])"
  using assms by (simp add: render_segmentation_page_def)

theorem segmentation_too_few_warns_witness:
  "render_segmentation_page (\<lambda>X k. Inr []) df_accounts 3 []
     = (df_accounts, Inr [Warning ''Please select at least 2 features for segmentation''])"
  using segmentation_too_few_warns [of "[]" "\<lambda>X k. Inr []" df_accounts 3] by simp

subsection \<open>Feature preparation\<close>

lemma names_setitem: "map_of df n = Some c0 \<Longrightarrow> map fst (setitem df n c) = map fst df"
  by (induction df) (auto split: if_splits)

lemma encode_column_names: "map fst (fst (encode_column s col)) = map fst (fst s)"
  by (cases s) (auto simp: names_setitem split: option.splits column.splits)

lemma foldl_encode_names: "map fst (fst (foldl encode_column s cols)) = map fst (fst s)"
  by (induction cols arbitrary: s) (simp_all add: encode_column_names)

lemma foldl_encode_encoders:
  "snd (foldl encode_column (mdf, encs) cols) c =
     (case map_of mdf c of
        Some (ObjCol xs) \<Rightarrow> if c \<in> set cols then Some (label_classes xs) else encs c
      | _ \<Rightarrow> encs c)"
proof (induction cols arbitrary: mdf encs)
  case Nil
  then show ?case by (simp split: option.splits column.splits)
next
  case (Cons col cols)
  show ?case
  proof (cases "\<exists>xs. map_of mdf col = Some (ObjCol xs)")
    case True
    then obtain xs where xs: "map_of mdf col = Some (ObjCol xs)" by blast
    define mdf' where "mdf' = setitem mdf col (IntCol (label_transform (label_classes xs) xs))"
    have step: "encode_column (mdf, encs) col = (mdf', encs(col \<mapsto> label_classes xs))"
      by (simp add: xs mdf'_def)
    have same: "map_of mdf' col = Some (IntCol (label_transform (label_classes xs) xs))"
      by (simp add: mdf'_def map_of_setitem_same)
    have other: "c \<noteq> col \<Longrightarrow> map_of mdf' c = map_of mdf c"
      by (simp add: mdf'_def map_of_setitem_other)
    have ih: "snd (foldl encode_column (mdf, encs) (col # cols)) c =
        (case map_of mdf' c of
           Some (ObjCol ys) \<Rightarrow>
             if c \<in> set cols then Some (label_classes ys) else (encs(col \<mapsto> label_classes xs)) c
         | _ \<Rightarrow> (encs(col \<mapsto> label_classes xs)) c)"
      unfolding foldl_Cons step by (rule Cons.IH)
    show ?thesis
    proof (cases "c = col")
      case True
      then show ?thesis unfolding ih by (simp add: same xs)
    next
      case False
      then show ?thesis unfolding ih by (simp add: other split: option.splits column.splits)
    qed
  next
    case False
    then have step: "encode_column (mdf, encs) col = (mdf, encs)"
      by (auto split: option.splits column.splits)
    have ih: "snd (foldl encode_column (mdf, encs) (col # cols)) c =
        (case map_of mdf c of
           Some (ObjCol ys) \<Rightarrow> if c \<in> set cols then Some (label_classes ys) else encs c
         | _ \<Rightarrow> encs c)"
      unfolding foldl_Cons step by (rule Cons.IH)
    show ?thesis
      unfolding ih using False by (auto split: option.splits column.splits)
  qed
qed

lemma set_select_dtypes_object:
  "map_of df c = Some (ObjCol xs) \<Longrightarrow> c \<in> set (select_dtypes is_object df)"
proof -
  assume "map_of df c = Some (ObjCol xs)"
  then have "(c, ObjCol xs) \<in> set df" by (rule map_of_SomeD)
  then have "(c, ObjCol xs) \<in> set (filter (\<lambda>(n, c). is_object c) df)" by simp
  then show ?thesis unfolding select_dtypes_def by (metis fst_conv image_eqI set_map)
qed

lemma names_drop_ignore: "set (map fst (drop_ignore names df)) \<subseteq> set (map fst df)"
  by (auto simp: drop_ignore_def)

text \<open>
  Claim C4, as stated, fails in its second half: the label encoders are fitted and stored
  before the target column is looked up. On a new processor whose frame has the object
  column \<open>Gender\<close> and no \<open>Churn\<close>, the call raises KeyError and leaves an encoder for
  \<open>Gender\<close> behind.
\<close>

theorem prepare_model_data_absent_target_counterexample:
  "snd (prepare_model_data identity_scaler (DataProcessor df_people) ''Churn'')
     = Inl (KeyError [''Churn'']) \<and>
   label_encoders (DataProcessor df_people :: unit data_processor) ''Gender'' = None \<and>
   label_encoders (fst (prepare_model_data identity_scaler (DataProcessor df_people) ''Churn''))
     ''Gender'' = Some [Some ''Female'', Some ''Male'']"
  by (simp add: prepare_model_data_def DataProcessor_def df_people_def drop_ignore_def
        select_dtypes_def label_classes_def List.map_filter_simps)

text \<open>
  Claim C4, amended. For a target column that the frame does not have,
  \<open>prepare_model_data\<close> fails with KeyError (the error the specification calls
  DataPreparationError), whatever the scaler would do; the stored scaler and the frame
  are the same after the call as before it, and the encoder collection is the one from
  before the call with a newly fitted encoder stored for every object column of the frame
  other than CustomerID and LastUpdate.
\<close>

theorem prepare_model_data_absent_target:
  assumes absent: "target_col \<notin> set (map fst (proc_df self))"
  shows "snd (prepare_model_data fit_transform self target_col) = Inl (KeyError [target_col]) \<and>
         scaler (fst (prepare_model_data fit_transform self target_col)) = scaler self \<and>
         proc_df (fst (prepare_model_data fit_transform self target_col)) = proc_df self \<and>
         label_encoders (fst (prepare_model_data fit_transform self target_col)) =
           (\<lambda>col. case map_of (drop_ignore [''CustomerID'', ''LastUpdate''] (proc_df self)) col of
                    Some (ObjCol xs) \<Rightarrow> Some (label_classes xs)
                  | _ \<Rightarrow> label_encoders self col)"
proof -
  define model_df where "model_df = drop_ignore [''CustomerID'', ''LastUpdate''] (proc_df self)"
  define loop where
    "loop = foldl encode_column (model_df, label_encoders self) (select_dtypes is_object model_df)"
  have names: "map fst (fst loop) = map fst model_df"
    by (simp add: loop_def foldl_encode_names)
  have "set (map fst model_df) \<subseteq> set (map fst (proc_df self))"
    unfolding model_df_def by (rule names_drop_ignore)
  with absent names have no: "target_col \<notin> set (map fst (fst loop))" by auto
  have run: "prepare_model_data fit_transform self target_col =
      (self\<lparr>label_encoders := snd loop\<rparr>, Inl (KeyError [target_col]))"
    using no
    by (simp add: prepare_model_data_def Let_def model_df_def [symmetric] loop_def [symmetric]
          split_beta)
  have encs: "snd loop =
      (\<lambda>col. case map_of model_df col of
                Some (ObjCol xs) \<Rightarrow> Some (label_classes xs)
              | _ \<Rightarrow> label_encoders self col)"
  proof
    fix c
    show "snd loop c =
      (case map_of model_df c of
         Some (ObjCol xs) \<Rightarrow> Some (label_classes xs)
       | _ \<Rightarrow> label_encoders self c)"
      unfolding loop_def foldl_encode_encoders
      by (auto simp: set_select_dtypes_object split: option.splits column.splits)
  qed
  show ?thesis by (simp add: run encs model_df_def)
qed

theorem prepare_model_data_absent_target_witness:
  "snd (prepare_model_data identity_scaler (DataProcessor df_people) ''Churn'')
     = Inl (KeyError [''Churn'']) \<and>
   scaler (fst (prepare_model_data identity_scaler (DataProcessor df_people) ''Churn'')) = None \<and>
   proc_df (fst (prepare_model_data identity_scaler (DataProcessor df_people) ''Churn''))
     = df_people"
  using prepare_model_data_absent_target [of "''Churn''" "DataProcessor df_people" identity_scaler]
  by (simp add: DataProcessor_def df_people_def)

subsection \<open>Value segments\<close>


























end
